theory Spec2Isabelle
  imports Main "HOL-Library.Word"
begin

section \<open>Base64 as used by the encoding step\<close>

text \<open>
  Line 9 of \<^verbatim>\<open>image.py\<close> is
  \<^verbatim>\<open>base64_image = base64.b64encode(image_file.read()).decode('utf-8')\<close>.
  The file content is a Python \<^verbatim>\<open>bytes\<close> value, a list of octets. The standard encoder
  (RFC 4648, the standard alphabet, \<^verbatim>\<open>=\<close> padding, no line breaks) maps every three
  octets to four characters of the alphabet. Its output is ASCII only, so the
  \<^verbatim>\<open>decode('utf-8')\<close> that follows yields the very same characters; the model
  therefore produces the text directly.
\<close>

type_synonym byte = "8 word"

definition b64_alphabet :: string where
  "b64_alphabet = ''ABCDEFGHIJKLMNOPQRSTUVWXYZabcdefghijklmnopqrstuvwxyz0123456789+/''"

definition pad_char :: char where
  "pad_char = CHR ''=''"

definition sextet_char :: "nat \<Rightarrow> char" where
  "sextet_char n = b64_alphabet ! (n mod 64)"

fun b64encode :: "byte list \<Rightarrow> string" where
  "b64encode [] = []"
| "b64encode [a] =
    (let n = unat a * 65536
     in [sextet_char (n div 262144), sextet_char (n div 4096), pad_char, pad_char])"
| "b64encode [a, b] =
    (let n = unat a * 65536 + unat b * 256
     in [sextet_char (n div 262144), sextet_char (n div 4096), sextet_char (n div 64), pad_char])"
| "b64encode (a # b # c # rest) =
    (let n = unat a * 65536 + unat b * 256 + unat c
     in [sextet_char (n div 262144), sextet_char (n div 4096), sextet_char (n div 64),
         sextet_char n] @ b64encode rest)"

text \<open>
  The decoder is the inverse direction of RFC 4648: four characters at a time, each looked up
  in the alphabet, padding accepted in the last group only. It is strict: a character outside
  the alphabet or a length that is not a multiple of four is an error (\<open>None\<close>). Python's
  \<^verbatim>\<open>base64.b64decode\<close> agrees with it on every text it accepts without discarding
  characters, in particular on every output of the encoder.
\<close>

fun index_of :: "'a \<Rightarrow> 'a list \<Rightarrow> nat option" where
  "index_of x [] = None"
| "index_of x (y # ys) = (if x = y then Some 0 else map_option Suc (index_of x ys))"

definition char_sextet :: "char \<Rightarrow> nat option" where
  "char_sextet c = index_of c b64_alphabet"

definition decode_quad :: "char \<Rightarrow> char \<Rightarrow> char \<Rightarrow> char \<Rightarrow> byte list option" where
  "decode_quad c0 c1 c2 c3 =
    (case (char_sextet c0, char_sextet c1, char_sextet c2, char_sextet c3) of
       (Some s0, Some s1, Some s2, Some s3) \<Rightarrow>
         (let n = s0 * 262144 + s1 * 4096 + s2 * 64 + s3
          in Some [of_nat (n div 65536), of_nat (n div 256), of_nat n])
     | _ \<Rightarrow> None)"

definition decode_last :: "char \<Rightarrow> char \<Rightarrow> char \<Rightarrow> char \<Rightarrow> byte list option" where
  "decode_last c0 c1 c2 c3 =
    (if c3 = pad_char then
       (if c2 = pad_char then
          (case (char_sextet c0, char_sextet c1) of
             (Some s0, Some s1) \<Rightarrow>
               (let n = s0 * 262144 + s1 * 4096 in Some [of_nat (n div 65536)])
           | _ \<Rightarrow> None)
        else
          (case (char_sextet c0, char_sextet c1, char_sextet c2) of
             (Some s0, Some s1, Some s2) \<Rightarrow>
               (let n = s0 * 262144 + s1 * 4096 + s2 * 64
                in Some [of_nat (n div 65536), of_nat (n div 256)])
           | _ \<Rightarrow> None))
     else decode_quad c0 c1 c2 c3)"

fun b64decode :: "string \<Rightarrow> byte list option" where
  "b64decode [] = Some []"
| "b64decode (c0 # c1 # c2 # c3 # rest) =
    (if rest = [] then decode_last c0 c1 c2 c3
     else (case decode_quad c0 c1 c2 c3 of
             None \<Rightarrow> None
           | Some bs \<Rightarrow> map_option (\<lambda>tl. bs @ tl) (b64decode rest)))"
| "b64decode _ = None"

section \<open>Values, errors and the outside world\<close>

text \<open>
  Python values that travel through the script's namespaces. The credential is one of them:
  the script never inspects it, it only hands it to the client constructor.
\<close>

datatype pyval = PyNone | PyStr string | PyModule string | PyBuiltin string

text \<open>
  Exceptions are values. \<open>FileAccessError\<close> stands for the \<^verbatim>\<open>OSError\<close> family that
  \<^verbatim>\<open>open\<close> and \<^verbatim>\<open>read\<close> raise (\<^verbatim>\<open>FileNotFoundError\<close>, \<^verbatim>\<open>PermissionError\<close>,
  an I/O failure while reading). \<open>ValueError\<close> is what \<^verbatim>\<open>open\<close> raises for a path it
  cannot take at all (an embedded NUL). \<open>OpenAIError\<close> is what the client constructor raises
  for a credential it does not accept. \<open>AuthenticationError\<close> and \<open>ServiceError\<close> are what
  the remote call raises; \<open>ResponseShapeError\<close> is the \<^verbatim>\<open>IndexError\<close> of
  \<^verbatim>\<open>choices[0]\<close> on an empty list and \<open>AttributeError\<close> the failure of
  \<^verbatim>\<open>.message\<close> or \<^verbatim>\<open>.content\<close>; \<open>NameError\<close> carries the unbound name;
  \<open>OutputError\<close> is a failure of \<^verbatim>\<open>print\<close> itself (a closed or broken standard output).
\<close>

datatype os_error = FileNotFound | PermissionDenied | IOFailure

datatype service_failure = RateLimited | TimedOut | ConnectionFailed | ServerFault | BadRequest

datatype error =
    FileAccessError os_error
  | ValueError
  | OpenAIError
  | AuthenticationError
  | ServiceError service_failure
  | ResponseShapeError
  | AttributeError
  | NameError string
  | OutputError

text \<open>
  The request is the keyword-argument structure of lines 11 to 28: a model identifier and a
  list of messages; a message is a role and a list of typed parts. A part is either
  \<^verbatim>\<open>{"type": "text", "text": t}\<close> or
  \<^verbatim>\<open>{"type": "image_url", "image_url": {"url": u}}\<close>.
\<close>

datatype content_part = TextPart string | ImageUrlPart string

record chat_message =
  req_role :: string
  req_content :: "content_part list"

record request =
  req_model :: string
  req_messages :: "chat_message list"

text \<open>
  The response object belongs to the client library. The script reads
  \<^verbatim>\<open>response.choices[0].message.content\<close> and nothing else, so the three records carry
  exactly these fields; whatever else the library puts into a response, a choice or a message
  lives in the extension part of the record scheme and stays a type parameter. An attribute
  of an object may be missing, may be \<^verbatim>\<open>None\<close>, or may hold a value.
\<close>

datatype 'a attr = Absent | Null | Has 'a

record message =
  content :: "string attr"

record 'm choice =
  message :: "'m message_scheme attr"

record ('m, 'c) response =
  choices :: "('m, 'c) choice_scheme list"

text \<open>
  The world outside the script: what each path of the file system holds; which credentials the
  client constructor refuses, and with which error; how the chat-completion endpoint answers
  the n-th transmission of a request under a credential; and whether standard output can be
  written. A path may be one that \<^verbatim>\<open>open\<close> cannot take, may name no file, a file that
  cannot be opened, a file that opens but whose read fails, or readable bytes.
\<close>

datatype file_state = BadPath | Missing | Denied | Faulty | Data "byte list"

record ('m, 'c, 'r) world =
  files :: "string \<Rightarrow> file_state"
  client_init :: "pyval \<Rightarrow> error option"
  remote :: "pyval \<Rightarrow> request \<Rightarrow> nat \<Rightarrow> error + ('m, 'c, 'r) response_scheme"
  stdout_fault :: "error option"

section \<open>Effects\<close>

text \<open>
  Every effect of the script is recorded, in order, in a trace. A computation takes the
  trace so far and returns either an error or a value, with the extended trace.
  \<open>RequestBuilt\<close> marks the call of the endpoint method with its evaluated arguments (the
  payload exists from then on); each \<open>RequestSent\<close> is one outbound transmission of it.
\<close>

datatype event =
    FileOpened string
  | FileRead string
  | FileClosed string
  | RequestBuilt request
  | RequestSent pyval request
  | StdoutWrite string

type_synonym 'a io = "event list \<Rightarrow> (error + 'a) \<times> event list"

definition io_return :: "'a \<Rightarrow> 'a io" where
  "io_return x tr = (Inr x, tr)"

definition io_raise :: "error \<Rightarrow> 'a io" where
  "io_raise e tr = (Inl e, tr)"

definition io_lift :: "error + 'a \<Rightarrow> 'a io" where
  "io_lift r tr = (r, tr)"

definition io_bind :: "'a io \<Rightarrow> ('a \<Rightarrow> 'b io) \<Rightarrow> 'b io" where
  "io_bind m f tr = (case m tr of (Inl e, tr') \<Rightarrow> (Inl e, tr') | (Inr x, tr') \<Rightarrow> f x tr')"

definition emit :: "event \<Rightarrow> unit io" where
  "emit ev tr = (Inr (), tr @ [ev])"

text \<open>
  The exit of a \<^verbatim>\<open>with\<close> block: the cleanup runs whatever the body did, and the
  body's outcome is the outcome of the block.
\<close>

definition io_finally :: "'a io \<Rightarrow> unit io \<Rightarrow> 'a io" where
  "io_finally body cleanup tr = (case body tr of (r, tr') \<Rightarrow> (r, snd (cleanup tr')))"

definition newline :: char where
  "newline = CHR 0x0A"

definition open_rb :: "('m, 'c, 'r) world \<Rightarrow> string \<Rightarrow> string io" where
  "open_rb w path =
    (case files w path of
       BadPath \<Rightarrow> io_raise ValueError
     | Missing \<Rightarrow> io_raise (FileAccessError FileNotFound)
     | Denied \<Rightarrow> io_raise (FileAccessError PermissionDenied)
     | Faulty \<Rightarrow> io_bind (emit (FileOpened path)) (\<lambda>_. io_return path)
     | Data bs \<Rightarrow> io_bind (emit (FileOpened path)) (\<lambda>_. io_return path))"

definition read_all :: "('m, 'c, 'r) world \<Rightarrow> string \<Rightarrow> byte list io" where
  "read_all w image_file =
    (case files w image_file of
       Data bs \<Rightarrow> io_bind (emit (FileRead image_file)) (\<lambda>_. io_return bs)
     | _ \<Rightarrow> io_raise (FileAccessError IOFailure))"

definition close_file :: "string \<Rightarrow> unit io" where
  "close_file image_file = emit (FileClosed image_file)"

definition with_open :: "('m, 'c, 'r) world \<Rightarrow> string \<Rightarrow> (string \<Rightarrow> 'a io) \<Rightarrow> 'a io" where
  "with_open w path body =
    io_bind (open_rb w path) (\<lambda>image_file. io_finally (body image_file) (close_file image_file))"

text \<open>
  \<^verbatim>\<open>openai.OpenAI(api_key=api_key)\<close> builds the client object around the credential, or
  raises when it does not accept it (no credential given and none configured). It makes no
  call to the service.
\<close>

record client =
  client_api_key :: pyval

definition OpenAI :: "('m, 'c, 'r) world \<Rightarrow> pyval \<Rightarrow> client io" where
  "OpenAI w api_key =
    (case client_init w api_key of
       Some e \<Rightarrow> io_raise e
     | None \<Rightarrow> io_return \<lparr>client_api_key = api_key\<rparr>)"

text \<open>
  \<^verbatim>\<open>client.chat.completions.create\<close> transmits the request. The client is built with its
  defaults, so a failure that the library regards as transient is transmitted again, up to two
  more times, before the error of the last transmission is raised.
\<close>

fun retryable :: "error \<Rightarrow> bool" where
  "retryable (ServiceError BadRequest) = False"
| "retryable (ServiceError f) = True"
| "retryable e = False"

definition max_retries :: nat where
  "max_retries = 2"

fun transmit ::
  "('m, 'c, 'r) world \<Rightarrow> pyval \<Rightarrow> request \<Rightarrow> nat \<Rightarrow> nat \<Rightarrow> ('m, 'c, 'r) response_scheme io" where
  "transmit w k req n 0 =
    io_bind (emit (RequestSent k req)) (\<lambda>_. io_lift (remote w k req n))"
| "transmit w k req n (Suc retries_left) =
    io_bind (emit (RequestSent k req))
      (\<lambda>_. case remote w k req n of
              Inr response \<Rightarrow> io_return response
            | Inl e \<Rightarrow> if retryable e then transmit w k req (Suc n) retries_left
                       else io_raise e)"

definition chat_completions_create ::
  "('m, 'c, 'r) world \<Rightarrow> client \<Rightarrow> request \<Rightarrow> ('m, 'c, 'r) response_scheme io" where
  "chat_completions_create w cl req =
    io_bind (emit (RequestBuilt req))
      (\<lambda>_. transmit w (client_api_key cl) req 0 max_retries)"

definition first_choice :: "('m, 'c, 'r) response_scheme \<Rightarrow> ('m, 'c) choice_scheme io" where
  "first_choice response =
    (case choices response of
       [] \<Rightarrow> io_raise ResponseShapeError
     | c # _ \<Rightarrow> io_return c)"

text \<open>Reading an attribute of an object; reading one of \<^verbatim>\<open>None\<close> fails as well.\<close>

definition get_message :: "('m, 'c) choice_scheme \<Rightarrow> 'm message_scheme io" where
  "get_message c =
    (case message c of
       Absent \<Rightarrow> io_raise AttributeError
     | Null \<Rightarrow> io_raise AttributeError
     | Has m \<Rightarrow> io_return m)"

definition get_content :: "'m message_scheme \<Rightarrow> string option io" where
  "get_content m =
    (case content m of
       Absent \<Rightarrow> io_raise AttributeError
     | Null \<Rightarrow> io_return None
     | Has s \<Rightarrow> io_return (Some s))"

text \<open>
  \<^verbatim>\<open>print(x)\<close> writes the text of \<^verbatim>\<open>x\<close> and then, separately, the line terminator.
  The text of \<^verbatim>\<open>None\<close> is \<^verbatim>\<open>None\<close>.
\<close>

fun str :: "string option \<Rightarrow> string" where
  "str None = ''None''"
| "str (Some s) = s"

definition print_line :: "('m, 'c, 'r) world \<Rightarrow> string option \<Rightarrow> unit io" where
  "print_line w x =
    (case stdout_fault w of
       Some e \<Rightarrow> io_raise e
     | None \<Rightarrow> io_bind (emit (StdoutWrite (str x))) (\<lambda>_. emit (StdoutWrite [newline])))"

section \<open>The function \<^verbatim>\<open>analyze_image\<close>\<close>

definition build_request :: "string \<Rightarrow> string \<Rightarrow> request" where
  "build_request text_prompt base64_image =
    \<lparr>req_model = ''gpt-4.1-mini-2025-04-14'',
     req_messages =
       [\<lparr>req_role = ''user'',
         req_content =
           [TextPart text_prompt,
            ImageUrlPart (''data:image/jpeg;base64,'' @ base64_image)]\<rparr>]\<rparr>"

definition analyze_image ::
  "('m, 'c, 'r) world \<Rightarrow> string \<Rightarrow> string \<Rightarrow> pyval \<Rightarrow> unit io" where
  "analyze_image w image_path text_prompt api_key =
    io_bind (OpenAI w api_key) (\<lambda>cl.
    io_bind
      (with_open w image_path
         (\<lambda>image_file. io_bind (read_all w image_file) (\<lambda>data. io_return (b64encode data))))
      (\<lambda>base64_image.
    io_bind (chat_completions_create w cl (build_request text_prompt base64_image)) (\<lambda>response.
    io_bind (first_choice response) (\<lambda>c.
    io_bind (get_message c) (\<lambda>m.
    io_bind (get_content m) (\<lambda>x.
    print_line w x))))))"

section \<open>The module\<close>

text \<open>
  Running the script evaluates its statements top to bottom. A name is looked up in the
  module's globals and then in the builtins namespace \<open>env\<close> the interpreter provides.
  When the \<^verbatim>\<open>def\<close> statement of line 5 is executed the globals hold the two imported
  modules and nothing else, and the default value of \<^verbatim>\<open>api_key\<close> is evaluated right
  there. The later statements bind \<^verbatim>\<open>target\<close> and \<^verbatim>\<open>quadrant_input\<close> and make the
  one call, which takes the default credential.
\<close>

type_synonym namespace = "string \<rightharpoonup> pyval"

definition lookup_name :: "namespace \<Rightarrow> namespace \<Rightarrow> string \<Rightarrow> error + pyval" where
  "lookup_name globals env name =
    (case globals name of
       Some v \<Rightarrow> Inr v
     | None \<Rightarrow> (case env name of Some v \<Rightarrow> Inr v | None \<Rightarrow> Inl (NameError name)))"

definition quadrant_input :: "string \<Rightarrow> string" where
  "quadrant_input target =
    concat (map (\<lambda>l. l @ [newline])
      [ [],
       ''<task>'',
       ''Identify which numbered section contains the '' @ target @ '' in the provided image.'',
       ''</task>'',
       [],
       ''<instructions>'',
       ''1. Locate your target: the '' @ target @ '' in the image'',
       ''2. Determine which red-numbered section it primarily occupies'',
       ''3. If the input field spans multiple sections, choose the section that contains the center/majority of the target'',
       ''4. Look specifically for text input elements like search bars, text boxes, or prompt input areas'',
       ''</instructions>'',
       [],
       ''<format>'',
       ''Return only the section number (1-40) that best represents the location of the text input field.'',
       ''</format>''])"

definition run_module :: "('m, 'c, 'r) world \<Rightarrow> namespace \<Rightarrow> unit io" where
  "run_module w env =
    (let globals = [''openai'' \<mapsto> PyModule ''openai'', ''base64'' \<mapsto> PyModule ''base64''] in
     io_bind (io_lift (lookup_name globals env ''OPENAI_API_KEY'')) (\<lambda>default_api_key.
       let target = ''submit text button'' in
       analyze_image w ''claude-2-result-2.png'' (quadrant_input target) default_api_key))"

section \<open>Observations on a trace\<close>

fun sent_requests :: "event list \<Rightarrow> (pyval \<times> request) list" where
  "sent_requests [] = []"
| "sent_requests (RequestSent k req # tr) = (k, req) # sent_requests tr"
| "sent_requests (_ # tr) = sent_requests tr"

fun built_requests :: "event list \<Rightarrow> request list" where
  "built_requests [] = []"
| "built_requests (RequestBuilt req # tr) = req # built_requests tr"
| "built_requests (_ # tr) = built_requests tr"

fun stdout_writes :: "event list \<Rightarrow> string list" where
  "stdout_writes [] = []"
| "stdout_writes (StdoutWrite s # tr) = s # stdout_writes tr"
| "stdout_writes (_ # tr) = stdout_writes tr"

definition stdout_of :: "event list \<Rightarrow> string" where
  "stdout_of tr = concat (stdout_writes tr)"



fun image_urls :: "content_part list \<Rightarrow> string list" where
  "image_urls [] = []"
| "image_urls (ImageUrlPart u # ps) = u # image_urls ps"
| "image_urls (TextPart t # ps) = image_urls ps"

definition request_image_urls :: "request \<Rightarrow> string list" where
  "request_image_urls req = concat (map (\<lambda>m. image_urls (req_content m)) (req_messages req))"

text \<open>The data part of a \<^verbatim>\<open>data:\<close> URI is what follows its first comma.\<close>

definition data_uri_payload :: "string \<Rightarrow> string" where
  "data_uri_payload u = drop 1 (dropWhile (\<lambda>c. c \<noteq> CHR '','') u)"

text \<open>
  Scoped use of file handles, checked along a trace with the list of handles currently open:
  a handle is read and closed only while open, no handle is open when a request is built or
  sent, and none is left open at the end.
\<close>

fun handles_scoped :: "string list \<Rightarrow> event list \<Rightarrow> bool" where
  "handles_scoped opened [] = (opened = [])"
| "handles_scoped opened (FileOpened h # tr) = handles_scoped (h # opened) tr"
| "handles_scoped opened (FileRead h # tr) = (h \<in> set opened \<and> handles_scoped opened tr)"
| "handles_scoped opened (FileClosed h # tr) =
    (h \<in> set opened \<and> handles_scoped (remove1 h opened) tr)"
| "handles_scoped opened (RequestBuilt req # tr) = (opened = [] \<and> handles_scoped opened tr)"
| "handles_scoped opened (RequestSent k req # tr) = (opened = [] \<and> handles_scoped opened tr)"
| "handles_scoped opened (StdoutWrite s # tr) = handles_scoped opened tr"

text \<open>Whether a path holds bytes that can be opened and read in full.\<close>

fun readable :: "file_state \<Rightarrow> bool" where
  "readable (Data bs) = True"
| "readable _ = False"

text \<open>
  What a call of the endpoint method comes to, read off the world: its result and the number
  of transmissions it makes.
\<close>

fun transmit_outcome ::
  "('m, 'c, 'r) world \<Rightarrow> pyval \<Rightarrow> request \<Rightarrow> nat \<Rightarrow> nat \<Rightarrow>
     (error + ('m, 'c, 'r) response_scheme) \<times> nat" where
  "transmit_outcome w k req n 0 = (remote w k req n, 1)"
| "transmit_outcome w k req n (Suc retries_left) =
    (case remote w k req n of
       Inr response \<Rightarrow> (Inr response, 1)
     | Inl e \<Rightarrow>
         if retryable e
         then (case transmit_outcome w k req (Suc n) retries_left of (r, sent) \<Rightarrow> (r, Suc sent))
         else (Inl e, 1))"

text \<open>What the script reads from a response: the error of the access, or the value of
  \<^verbatim>\<open>choices[0].message.content\<close>.\<close>

definition response_text :: "('m, 'c, 'r) response_scheme \<Rightarrow> error + string option" where
  "response_text response =
    (case choices response of
       [] \<Rightarrow> Inl ResponseShapeError
     | c # cs \<Rightarrow>
         (case message c of
            Absent \<Rightarrow> Inl AttributeError
          | Null \<Rightarrow> Inl AttributeError
          | Has m \<Rightarrow>
              (case content m of
                 Absent \<Rightarrow> Inl AttributeError
               | Null \<Rightarrow> Inr None
               | Has s \<Rightarrow> Inr (Some s))))"

section \<open>Concrete scenarios\<close>

text \<open>
  A small world to run the model on. \<^verbatim>\<open>grid.png\<close> and the script's own
  \<^verbatim>\<open>claude-2-result-2.png\<close> hold the eight bytes of the PNG signature (so the file is not a
  JPEG), \<^verbatim>\<open>locked.png\<close> cannot be opened, \<^verbatim>\<open>broken.png\<close> opens but cannot be read, a
  path with an embedded NUL is not a path, and no other path exists. The constructor accepts
  every string as a credential and nothing else. The service accepts one credential, always
  throttles a second one, throttles a third one once, and rejects every other; an accepted
  request is answered with one choice per given text.
\<close>

definition png_signature :: "byte list" where
  "png_signature = [137, 80, 78, 71, 13, 10, 26, 10]"

definition nul_path :: string where
  "nul_path = ''grid'' @ [CHR 0x00] @ ''.png''"

definition scenario_files :: "string \<Rightarrow> file_state" where
  "scenario_files path =
    (if path = ''grid.png'' \<or> path = ''claude-2-result-2.png'' then Data png_signature
     else if path = ''locked.png'' then Denied
     else if path = ''broken.png'' then Faulty
     else if path = nul_path then BadPath
     else Missing)"

fun scenario_init :: "pyval \<Rightarrow> error option" where
  "scenario_init (PyStr k) = None"
| "scenario_init v = Some OpenAIError"

definition scenario_response :: "string list \<Rightarrow> (unit, unit) response" where
  "scenario_response answers =
    \<lparr>choices = map (\<lambda>a. \<lparr>message = Has \<lparr>content = Has a\<rparr>\<rparr>) answers\<rparr>"

definition scenario_remote ::
  "string list \<Rightarrow> pyval \<Rightarrow> request \<Rightarrow> nat \<Rightarrow> error + (unit, unit) response" where
  "scenario_remote answers k req n =
    (if k = PyStr ''valid-key'' then Inr (scenario_response answers)
     else if k = PyStr ''throttled-key'' then Inl (ServiceError RateLimited)
     else if k = PyStr ''flaky-key'' then
       (if n = 0 then Inl (ServiceError RateLimited) else Inr (scenario_response answers))
     else Inl AuthenticationError)"

definition scenario_world :: "string list \<Rightarrow> (unit, unit, unit) world" where
  "scenario_world answers =
    \<lparr>files = scenario_files, client_init = scenario_init,
     remote = scenario_remote answers, stdout_fault = None\<rparr>"

text \<open>The same service in front of an empty disk: no path names a file.\<close>

definition empty_disk_world :: "string list \<Rightarrow> (unit, unit, unit) world" where
  "empty_disk_world answers = (scenario_world answers)\<lparr>files := (\<lambda>path. Missing)\<rparr>"

text \<open>
  The names visible to the module before its first statement runs: the builtins of a fresh
  interpreter, as far as the script uses them, and the same with the credential bound by
  whoever launches the script (in the builtins, or as initial globals).
\<close>

definition standard_env :: namespace where
  "standard_env = [''open'' \<mapsto> PyBuiltin ''open'', ''print'' \<mapsto> PyBuiltin ''print'']"

definition injected_env :: namespace where
  "injected_env = standard_env(''OPENAI_API_KEY'' \<mapsto> PyStr ''valid-key'')"

definition throttled_env :: namespace where
  "throttled_env = standard_env(''OPENAI_API_KEY'' \<mapsto> PyStr ''throttled-key'')"

section \<open>Properties of the encoder\<close>

lemma b64_alphabet_length: "length b64_alphabet = 64"
  by (simp add: b64_alphabet_def)

lemma b64_alphabet_distinct: "distinct b64_alphabet"
  by (simp add: b64_alphabet_def)

lemma pad_not_in_alphabet: "pad_char \<notin> set b64_alphabet"
  by (simp add: b64_alphabet_def pad_char_def)

lemma index_of_nth: "distinct xs \<Longrightarrow> n < length xs \<Longrightarrow> index_of (xs ! n) xs = Some n"
proof (induction xs arbitrary: n)
  case Nil
  then show ?case by simp
next
  case (Cons y ys)
  show ?case
  proof (cases n)
    case 0
    then show ?thesis by simp
  next
    case (Suc m)
    with Cons.prems have "ys ! m \<in> set ys" "y \<notin> set ys" "distinct ys" "m < length ys" by auto
    with Cons.IH[of m] Suc show ?thesis by auto
  qed
qed

lemma char_sextet_sextet_char: "char_sextet (sextet_char n) = Some (n mod 64)"
  unfolding char_sextet_def sextet_char_def
  by (rule index_of_nth) (simp_all add: b64_alphabet_distinct b64_alphabet_length)

lemma sextet_char_not_pad: "sextet_char n \<noteq> pad_char"
proof -
  have "sextet_char n \<in> set b64_alphabet"
    unfolding sextet_char_def by (rule nth_mem) (simp add: b64_alphabet_length)
  with pad_not_in_alphabet show ?thesis by auto
qed

lemma unat_byte_bound: "unat (a :: byte) < 256"
  using unsigned_less[of a, where ?'a = nat] by simp

lemma b64encode_Nil_iff: "b64encode bs = [] \<longleftrightarrow> bs = []"
  by (induction bs rule: b64encode.induct) (simp_all add: Let_def)

lemma recompose:
  assumes "n < 16777216"
  shows "(n div 262144) mod 64 * 262144 + (n div 4096) mod 64 * 4096 + (n div 64) mod 64 * 64 + n mod 64 = (n::nat)"
proof -
  have d1: "n div 4096 = n div 64 div 64" by (simp add: div_mult2_eq)
  have d2: "n div 262144 = n div 64 div 64 div 64" by (simp add: div_mult2_eq)
  define q1 where "q1 = n div 64"
  define q2 where "q2 = q1 div 64"
  define q3 where "q3 = q2 div 64"
  have e1: "n = q1 * 64 + n mod 64" by (simp add: q1_def)
  have e2: "q1 = q2 * 64 + q1 mod 64" by (simp add: q2_def)
  have e3: "q2 = q3 * 64 + q2 mod 64" by (simp add: q3_def)
  have "q3 < 64" using assms unfolding q3_def q2_def q1_def by (simp add: div_mult2_eq less_mult_imp_div_less)
  then have m3: "q3 mod 64 = q3" by simp
  have "q3 mod 64 * 262144 + q2 mod 64 * 4096 + q1 mod 64 * 64 + n mod 64 = n"
    using e1 e2 e3 m3 by linarith
  then show ?thesis by (simp add: d1 d2 q1_def q2_def q3_def)
qed

lemma mod_64_of_4096: "(n::nat) mod 4096 = 0 \<Longrightarrow> n mod 64 = 0"
proof -
  assume z: "n mod 4096 = 0"
  have "n mod 4096 mod 64 = n mod 64" by (rule mod_mod_cancel) simp
  with z show ?thesis by simp
qed

lemma mod_64_of_256: "(n::nat) mod 256 = 0 \<Longrightarrow> n mod 64 = 0"
proof -
  assume z: "n mod 256 = 0"
  have "n mod 256 mod 64 = n mod 64" by (rule mod_mod_cancel) simp
  with z show ?thesis by simp
qed

lemma div_64_mod_64_of_4096: "(n::nat) mod 4096 = 0 \<Longrightarrow> n div 64 mod 64 = 0"
proof -
  assume "n mod 4096 = 0"
  then obtain k where "n = 4096 * k" by (auto simp: mod_eq_0_iff_dvd)
  then have "n div 64 = 64 * k" by simp
  then show ?thesis by simp
qed

lemma decode_quad_sextets:
  assumes "n < 16777216"
  shows "decode_quad (sextet_char (n div 262144)) (sextet_char (n div 4096))
           (sextet_char (n div 64)) (sextet_char n)
         = Some [of_nat (n div 65536), of_nat (n div 256), of_nat n]"
  unfolding decode_quad_def
  by (simp only: char_sextet_sextet_char recompose[OF assms] prod.case option.case Let_def)

lemma decode_last_sextets:
  assumes "n < 16777216"
  shows "decode_last (sextet_char (n div 262144)) (sextet_char (n div 4096))
           (sextet_char (n div 64)) (sextet_char n)
         = Some [of_nat (n div 65536), of_nat (n div 256), of_nat n]"
  unfolding decode_last_def
  by (simp only: sextet_char_not_pad if_False decode_quad_sextets[OF assms])

lemma decode_last_pad1:
  assumes "n < 16777216" and "n mod 256 = 0"
  shows "decode_last (sextet_char (n div 262144)) (sextet_char (n div 4096))
           (sextet_char (n div 64)) pad_char
         = Some [of_nat (n div 65536), of_nat (n div 256)]"
proof -
  have z: "n mod 64 = 0" using assms(2) by (rule mod_64_of_256)
  have "n div 262144 mod 64 * 262144 + n div 4096 mod 64 * 4096 + n div 64 mod 64 * 64 = n"
    using recompose[OF assms(1)] by (simp only: z add_0_right)
  then show ?thesis
    unfolding decode_last_def
    by (simp only: sextet_char_not_pad char_sextet_sextet_char simp_thms if_True if_False
          prod.case option.case Let_def)
qed

lemma decode_last_pad2:
  assumes "n < 16777216" and "n mod 4096 = 0"
  shows "decode_last (sextet_char (n div 262144)) (sextet_char (n div 4096)) pad_char pad_char
         = Some [of_nat (n div 65536)]"
proof -
  have z: "n div 64 mod 64 = 0" "n mod 64 = 0"
    using assms(2) by (rule div_64_mod_64_of_4096, rule mod_64_of_4096)
  have "n div 262144 mod 64 * 262144 + n div 4096 mod 64 * 4096 = n"
    using recompose[OF assms(1)] by (simp only: z mult_zero_left add_0_right)
  then show ?thesis
    unfolding decode_last_def
    by (simp only: char_sextet_sextet_char simp_thms if_True prod.case option.case Let_def)
qed

lemma byte_eq_iff: "(of_nat m :: byte) = of_nat n \<longleftrightarrow> m mod 256 = n mod 256"
  by (simp add: word_of_nat_eq_iff take_bit_eq_mod)

lemma byte_hi: "b < 256 \<Longrightarrow> c < 256 \<Longrightarrow> (a * 65536 + b * 256 + c) div 65536 = (a::nat)"
  by simp

lemma byte_mid: "c < 256 \<Longrightarrow> (of_nat ((a * 65536 + b * 256 + c) div 256) :: byte) = of_nat b"
proof -
  assume "c < 256"
  then have "(a * 65536 + b * 256 + c) div 256 = a * 256 + b" by simp
  moreover have "(a * 256 + b) mod 256 = b mod 256" by simp
  ultimately show ?thesis by (simp only: byte_eq_iff)
qed

lemma byte_lo: "(of_nat (a * 65536 + b * 256 + c) :: byte) = of_nat c"
proof -
  have "a * 65536 + b * 256 + c = (a * 256 + b) * 256 + c" by simp
  then have "(a * 65536 + b * 256 + c) mod 256 = c mod 256" by (simp only: mod_mult_self3)
  then show ?thesis by (simp only: byte_eq_iff)
qed

lemma triple_bytes:
  fixes a b c :: byte
  defines "n \<equiv> unat a * 65536 + unat b * 256 + unat c"
  shows "n < 16777216" and "[of_nat (n div 65536), of_nat (n div 256), of_nat n] = [a, b, c]"
proof -
  have bd: "unat a < 256" "unat b < 256" "unat c < 256" by (rule unat_byte_bound)+
  then show "n < 16777216" unfolding n_def by linarith
  have "of_nat (n div 65536) = a" unfolding n_def using byte_hi[OF bd(2,3)] by simp
  moreover have "of_nat (n div 256) = b" unfolding n_def using byte_mid[OF bd(3)] by simp
  moreover have "of_nat n = c" unfolding n_def using byte_lo[of "unat a" "unat b" "unat c"] by simp
  ultimately show "[of_nat (n div 65536), of_nat (n div 256), of_nat n] = [a, b, c]" by simp
qed

lemma b64_roundtrip: "b64decode (b64encode bs) = Some bs"
proof (induction bs rule: b64encode.induct)
  case 1
  show ?case by simp
next
  case (2 a)
  define n where "n = unat a * 65536"
  have n: "n = unat a * 65536 + unat (0::byte) * 256 + unat (0::byte)" by (simp add: n_def)
  have "n mod 4096 = 0" unfolding n_def by simp
  moreover have "n < 16777216" unfolding n by (rule triple_bytes)
  ultimately have "decode_last (sextet_char (n div 262144)) (sextet_char (n div 4096)) pad_char pad_char
         = Some [of_nat (n div 65536)]" by (rule decode_last_pad2[rotated])
  moreover have "of_nat (n div 65536) = a" using triple_bytes(2)[of a 0 0] unfolding n by simp
  ultimately show ?case
    by (simp only: b64encode.simps Let_def b64decode.simps n_def simp_thms if_True)
next
  case (3 a b)
  define n where "n = unat a * 65536 + unat b * 256"
  have n: "n = unat a * 65536 + unat b * 256 + unat (0::byte)" by (simp add: n_def)
  have "n mod 256 = 0" unfolding n_def by simp
  moreover have "n < 16777216" unfolding n by (rule triple_bytes)
  ultimately have "decode_last (sextet_char (n div 262144)) (sextet_char (n div 4096))
      (sextet_char (n div 64)) pad_char = Some [of_nat (n div 65536), of_nat (n div 256)]"
    by (rule decode_last_pad1[rotated])
  moreover have "[of_nat (n div 65536), of_nat (n div 256)] = [a, b]"
    using triple_bytes(2)[of a b 0] unfolding n by simp
  ultimately show ?case
    by (simp only: b64encode.simps Let_def b64decode.simps n_def simp_thms if_True)
next
  case (4 a b c rest)
  define n where "n = unat a * 65536 + unat b * 256 + unat c"
  have lt: "n < 16777216" and bytes: "[of_nat (n div 65536), of_nat (n div 256), of_nat n] = [a, b, c]"
    unfolding n_def by (rule triple_bytes)+
  have enc: "b64encode (a # b # c # rest) =
      sextet_char (n div 262144) # sextet_char (n div 4096) # sextet_char (n div 64) #
      sextet_char n # b64encode rest"
    by (simp only: b64encode.simps Let_def n_def append_Cons append_Nil)
  show ?case
  proof (cases "rest = []")
    case True
    then show ?thesis
      unfolding enc by (simp add: decode_last_sextets[OF lt] bytes)
  next
    case False
    then have "b64encode rest \<noteq> []" by (simp add: b64encode_Nil_iff)
    then show ?thesis
      unfolding enc using "4.IH" by (simp add: decode_quad_sextets[OF lt] bytes)
  qed
qed

lemma b64encode_chars: "set (b64encode bs) \<subseteq> insert pad_char (set b64_alphabet)"
proof (induction bs rule: b64encode.induct)
  case (4 a b c rest)
  have "\<And>n. sextet_char n \<in> set b64_alphabet"
    unfolding sextet_char_def by (rule nth_mem) (simp add: b64_alphabet_length)
  with 4 show ?case by (auto simp: Let_def)
next
  case (3 a b)
  have "\<And>n. sextet_char n \<in> set b64_alphabet"
    unfolding sextet_char_def by (rule nth_mem) (simp add: b64_alphabet_length)
  then show ?case by (auto simp: Let_def)
next
  case (2 a)
  have "\<And>n. sextet_char n \<in> set b64_alphabet"
    unfolding sextet_char_def by (rule nth_mem) (simp add: b64_alphabet_length)
  then show ?case by (auto simp: Let_def)
qed simp

text \<open>The encoder emits ASCII only, which is why decoding its bytes as UTF-8 cannot fail and
  changes no character.\<close>

lemma b64encode_ascii: "c \<in> set (b64encode bs) \<Longrightarrow> of_char c < (128::nat)"
proof -
  assume "c \<in> set (b64encode bs)"
  with b64encode_chars have "c \<in> insert pad_char (set b64_alphabet)" by blast
  then show ?thesis by (auto simp: pad_char_def b64_alphabet_def)
qed

section \<open>Outcomes of \<^verbatim>\<open>analyze_image\<close>\<close>

lemmas io_defs = io_return_def io_raise_def io_lift_def io_bind_def emit_def io_finally_def
  open_rb_def read_all_def close_file_def with_open_def OpenAI_def chat_completions_create_def
  first_choice_def get_message_def get_content_def print_line_def

lemma transmit_eq:
  "transmit w k req n retries_left tr =
     (fst (transmit_outcome w k req n retries_left),
      tr @ replicate (snd (transmit_outcome w k req n retries_left)) (RequestSent k req))"
proof (induction retries_left arbitrary: n tr)
  case 0
  show ?case by (simp add: io_bind_def emit_def io_lift_def)
next
  case (Suc left)
  show ?case
    by (simp add: io_bind_def emit_def io_return_def io_raise_def Suc.IH
        replicate_append_same split: sum.splits prod.splits)
qed

lemma transmit_outcome_bounds:
  "1 \<le> snd (transmit_outcome w k req n retries_left) \<and>
   snd (transmit_outcome w k req n retries_left) \<le> Suc retries_left"
proof (induction retries_left arbitrary: n)
  case 0
  show ?case by simp
next
  case (Suc left)
  from Suc.IH[of "Suc n"] show ?case by (auto split: sum.splits prod.splits)
qed


lemma transmit_outcome_final:
  "remote w k req n = Inl e \<Longrightarrow> \<not> retryable e \<Longrightarrow>
   transmit_outcome w k req n retries_left = (Inl e, 1)"
  by (cases retries_left) simp_all

text \<open>
  The function is a straight line with a fixed list of places where it can stop. This lemma
  gives what it returns and which effects it has had in each case; the properties below are
  read off it.
\<close>

lemma analyze_image_outcome:
  "analyze_image w p t k tr =
    (case client_init w k of
       Some e \<Rightarrow> (Inl e, tr)
     | None \<Rightarrow>
       (case files w p of
          BadPath \<Rightarrow> (Inl ValueError, tr)
        | Missing \<Rightarrow> (Inl (FileAccessError FileNotFound), tr)
        | Denied \<Rightarrow> (Inl (FileAccessError PermissionDenied), tr)
        | Faulty \<Rightarrow> (Inl (FileAccessError IOFailure), tr @ [FileOpened p, FileClosed p])
        | Data bs \<Rightarrow>
            (case transmit_outcome w k (build_request t (b64encode bs)) 0 max_retries of
               (Inl e, sent) \<Rightarrow>
                 (Inl e, tr @ [FileOpened p, FileRead p, FileClosed p,
                              RequestBuilt (build_request t (b64encode bs))]
                         @ replicate sent (RequestSent k (build_request t (b64encode bs))))
             | (Inr r, sent) \<Rightarrow>
                 (case response_text r of
                    Inl e \<Rightarrow>
                      (Inl e, tr @ [FileOpened p, FileRead p, FileClosed p,
                                   RequestBuilt (build_request t (b64encode bs))]
                              @ replicate sent (RequestSent k (build_request t (b64encode bs))))
                  | Inr x \<Rightarrow>
                      (case stdout_fault w of
                         Some e \<Rightarrow>
                           (Inl e, tr @ [FileOpened p, FileRead p, FileClosed p,
                                        RequestBuilt (build_request t (b64encode bs))]
                                   @ replicate sent (RequestSent k (build_request t (b64encode bs))))
                       | None \<Rightarrow>
                           (Inr (), tr @ [FileOpened p, FileRead p, FileClosed p,
                                         RequestBuilt (build_request t (b64encode bs))]
                                    @ replicate sent (RequestSent k (build_request t (b64encode bs)))
                                    @ [StdoutWrite (str x), StdoutWrite [newline] ]))))))"
  by (simp add: analyze_image_def io_defs transmit_eq response_text_def
      split: option.splits file_state.splits sum.splits list.splits prod.splits attr.splits)

lemma sent_requests_append: "sent_requests (xs @ ys) = sent_requests xs @ sent_requests ys"
  by (induction xs rule: sent_requests.induct) simp_all

lemma built_requests_append: "built_requests (xs @ ys) = built_requests xs @ built_requests ys"
  by (induction xs rule: built_requests.induct) simp_all

lemma stdout_writes_append: "stdout_writes (xs @ ys) = stdout_writes xs @ stdout_writes ys"
  by (induction xs rule: stdout_writes.induct) simp_all

lemma sent_requests_replicate:
  "sent_requests (replicate n (RequestSent k req)) = replicate n (k, req)"
  by (induction n) simp_all

lemma built_requests_replicate: "built_requests (replicate n (RequestSent k req)) = []"
  by (induction n) simp_all

lemma stdout_writes_replicate: "stdout_writes (replicate n (RequestSent k req)) = []"
  by (induction n) simp_all

lemma handles_scoped_replicate:
  "handles_scoped [] (replicate n (RequestSent k req) @ tr) = handles_scoped [] tr"
  by (induction n) simp_all

lemmas trace_simps = sent_requests_append built_requests_append stdout_writes_append
  sent_requests_replicate built_requests_replicate stdout_writes_replicate

lemma scenario_world_simps:
  "files (scenario_world answers) = scenario_files"
  "client_init (scenario_world answers) = scenario_init"
  "remote (scenario_world answers) = scenario_remote answers"
  "stdout_fault (scenario_world answers) = None"
  "client_init (empty_disk_world answers) = scenario_init"
  "files (empty_disk_world answers) path = Missing"
  by (simp_all add: scenario_world_def empty_disk_world_def)

lemma scenario_files_simps:
  "scenario_files ''grid.png'' = Data png_signature"
  "scenario_files ''claude-2-result-2.png'' = Data png_signature"
  "scenario_files ''missing.png'' = Missing"
  "scenario_files ''locked.png'' = Denied"
  "scenario_files ''broken.png'' = Faulty"
  "scenario_files nul_path = BadPath"
  by (simp_all add: scenario_files_def nul_path_def)

lemma scenario_remote_simps:
  "scenario_remote answers (PyStr ''valid-key'') req n = Inr (scenario_response answers)"
  "scenario_remote answers (PyStr ''throttled-key'') req n = Inl (ServiceError RateLimited)"
  "scenario_remote answers (PyStr ''expired-key'') req n = Inl AuthenticationError"
  "scenario_remote answers (PyStr ''flaky-key'') req 0 = Inl (ServiceError RateLimited)"
  "scenario_remote answers (PyStr ''flaky-key'') req (Suc n) = Inr (scenario_response answers)"
  by (simp_all add: scenario_remote_def)

lemma scenario_response_text:
  "response_text (scenario_response (a # answers)) = Inr (Some a)"
  "response_text (scenario_response []) = Inl ResponseShapeError"
  by (simp_all add: response_text_def scenario_response_def)

lemmas scenario_simps = scenario_world_simps scenario_files_simps scenario_remote_simps
  scenario_response_text

lemma max_retries_Suc: "max_retries = Suc (Suc 0)"
  by (simp add: max_retries_def)

lemma data_uri_payload_jpeg: "data_uri_payload (''data:image/jpeg;base64,'' @ x) = x"
  by (simp add: data_uri_payload_def)

lemma request_image_urls_build:
  "request_image_urls (build_request t b) = [''data:image/jpeg;base64,'' @ b]"
  by (simp add: request_image_urls_def build_request_def)




lemma b64encode_png_signature: "b64encode png_signature = ''iVBORw0KGgo=''"
  by (simp add: png_signature_def sextet_char_def b64_alphabet_def pad_char_def Let_def)

lemma run_module_outcome:
  "run_module w env tr =
    (case env ''OPENAI_API_KEY'' of
       None \<Rightarrow> (Inl (NameError ''OPENAI_API_KEY''), tr)
     | Some k \<Rightarrow>
         analyze_image w ''claude-2-result-2.png'' (quadrant_input ''submit text button'') k tr)"
  by (simp add: run_module_def lookup_name_def io_bind_def io_lift_def split: option.splits)

lemma standard_env_no_key: "standard_env ''OPENAI_API_KEY'' = None"
  by (simp add: standard_env_def)

lemma injected_env_key: "injected_env ''OPENAI_API_KEY'' = Some (PyStr ''valid-key'')"
  by (simp add: injected_env_def)

lemma built_requests_data:
  assumes "files w p = Data bs"
  shows "built_requests (snd (analyze_image w p t k [])) =
           (if client_init w k = None then [build_request t (b64encode bs)] else [])"
  using assms
  by (auto simp: analyze_image_outcome trace_simps split: sum.splits prod.splits option.splits)

lemma sent_requests_data:
  assumes "files w p = Data bs"
  shows "set (sent_requests (snd (analyze_image w p t k [])))
           \<subseteq> {(k, build_request t (b64encode bs))}"
  using assms
  by (auto simp: analyze_image_outcome trace_simps split: sum.splits prod.splits option.splits)

lemma payload_of_build_request:
  "map (\<lambda>u. b64decode (data_uri_payload u)) (request_image_urls (build_request t (b64encode bs)))
     = [Some bs]"
  by (simp only: request_image_urls_build list.map data_uri_payload_jpeg b64_roundtrip)

lemma throttled_env_key: "throttled_env ''OPENAI_API_KEY'' = Some (PyStr ''throttled-key'')"
  by (simp add: throttled_env_def)

lemma transmissions_le:
  "snd (transmit_outcome w k req 0 max_retries) \<le> 3"
  using transmit_outcome_bounds[of w k req 0 max_retries] by (simp add: max_retries_def)

lemma requests_bounded:
  "length (built_requests (snd (analyze_image w p t k []))) \<le> 1 \<and>
   length (sent_requests (snd (analyze_image w p t k []))) \<le> 3"
proof (cases "files w p")
  case (Data bs)
  then show ?thesis
    using transmissions_le[of w k "build_request t (b64encode bs)"]
    by (auto simp: analyze_image_outcome trace_simps
        split: sum.splits prod.splits option.splits)
qed (simp_all add: analyze_image_outcome split: option.splits)


lemma handles_scoped_replicate_only: "handles_scoped [] (replicate n (RequestSent k req))"
  by (induction n) simp_all

section \<open>Claims\<close>




text \<open>
  C2 (as amended). When the image path does not name a file that can be opened and read,
  \<^verbatim>\<open>analyze_image\<close> fails; no request payload has been built, no outbound call has been
  made and nothing has been printed. The failure is a \<open>FileAccessError\<close> whenever the
  constructor accepted the credential and the path is one that \<^verbatim>\<open>open\<close> can take.
\<close>

theorem unreadable_image_fails_before_request:
  assumes "\<not> readable (files w image_path)"
  shows "(\<exists>e. fst (analyze_image w image_path text_prompt api_key []) = Inl e) \<and>
         built_requests (snd (analyze_image w image_path text_prompt api_key [])) = [] \<and>
         sent_requests (snd (analyze_image w image_path text_prompt api_key [])) = [] \<and>
         stdout_writes (snd (analyze_image w image_path text_prompt api_key [])) = [] \<and>
         (client_init w api_key = None \<and> files w image_path \<noteq> BadPath \<longrightarrow>
            (\<exists>x. fst (analyze_image w image_path text_prompt api_key [])
                   = Inl (FileAccessError x)))"
  using assms
  by (cases "files w image_path"; cases "client_init w api_key")
     (simp_all add: analyze_image_outcome)

theorem unreadable_image_fails_before_request_witness:
  "\<not> readable (files (scenario_world [''17'']) ''missing.png'') \<and>
   client_init (scenario_world [''17'']) (PyStr ''valid-key'') = None \<and>
   files (scenario_world [''17'']) ''missing.png'' \<noteq> BadPath \<and>
   fst (analyze_image (scenario_world [''17'']) ''missing.png''
     ''Identify section 1-40 containing the search bar'' (PyStr ''valid-key'') [])
     = Inl (FileAccessError FileNotFound) \<and>
   built_requests (snd (analyze_image (scenario_world [''17'']) ''missing.png''
     ''Identify section 1-40 containing the search bar'' (PyStr ''valid-key'') [])) = [] \<and>
   sent_requests (snd (analyze_image (scenario_world [''17'']) ''missing.png''
     ''Identify section 1-40 containing the search bar'' (PyStr ''valid-key'') [])) = []"
  using unreadable_image_fails_before_request [of "scenario_world [''17'']" "''missing.png''"
      "''Identify section 1-40 containing the search bar''" "PyStr ''valid-key''"]
  by (simp add: scenario_simps analyze_image_outcome)

text \<open>
  Not every such failure is a \<open>FileAccessError\<close>: with a credential the constructor refuses
  the error is the constructor's, raised before \<^verbatim>\<open>open\<close> is reached, and a path with an
  embedded NUL makes \<^verbatim>\<open>open\<close> raise \<open>ValueError\<close>.
\<close>

theorem unreadable_image_other_error_counterexample:
  "\<not> readable (files (scenario_world [''17'']) ''missing.png'') \<and>
   fst (analyze_image (scenario_world [''17'']) ''missing.png''
     ''Identify section 1-40 containing the search bar'' PyNone []) = Inl OpenAIError \<and>
   \<not> readable (files (scenario_world [''17'']) nul_path) \<and>
   fst (analyze_image (scenario_world [''17'']) nul_path
     ''Identify section 1-40 containing the search bar'' (PyStr ''valid-key'') []) = Inl ValueError"
  by (simp add: analyze_image_outcome scenario_simps)

text \<open>
  C3. Base64 round trip: for every sequence of file bytes, decoding the encoded text gives
  back exactly those bytes, and this holds of the payload of every request that
  \<^verbatim>\<open>analyze_image\<close> builds from a file with those bytes (the data part of its image URL).
  Such a request is built whenever the constructor accepts the credential.
\<close>

theorem encoded_payload_roundtrip:
  assumes "files w image_path = Data bs"
  shows "b64decode (b64encode bs) = Some bs \<and>
         (\<forall>req \<in> set (built_requests (snd (analyze_image w image_path text_prompt api_key []))).
            map (\<lambda>u. b64decode (data_uri_payload u)) (request_image_urls req) = [Some bs]) \<and>
         (client_init w api_key = None \<longrightarrow>
            built_requests (snd (analyze_image w image_path text_prompt api_key [])) \<noteq> [])"
  by (simp add: built_requests_data[OF assms] payload_of_build_request b64_roundtrip)

theorem encoded_payload_roundtrip_witness:
  "files (scenario_world [''17'']) ''grid.png'' = Data png_signature \<and>
   client_init (scenario_world [''17'']) (PyStr ''valid-key'') = None \<and>
   b64decode (b64encode png_signature) = Some png_signature \<and>
   map (\<lambda>req. map (\<lambda>u. b64decode (data_uri_payload u)) (request_image_urls req))
     (built_requests (snd (analyze_image (scenario_world [''17'']) ''grid.png''
        ''Identify section 1-40 containing the search bar'' (PyStr ''valid-key'') [])))
   = [ [Some png_signature] ]"
  using encoded_payload_roundtrip [of "scenario_world [''17'']" "''grid.png''" png_signature
      "''Identify section 1-40 containing the search bar''" "PyStr ''valid-key''"]
  by (simp add: scenario_simps built_requests_data payload_of_build_request)

text \<open>
  C4. Whatever bytes the file holds, every request that \<^verbatim>\<open>analyze_image\<close> builds, and
  every request it sends, has exactly one image part, and its URL is
  \<^verbatim>\<open>data:image/jpeg;base64,\<close> followed by the Base64 text of the bytes: the media type
  declared is always JPEG. When the constructor accepts the credential exactly this one
  request is built. The scenario file holds the signature of a PNG.
\<close>

theorem image_url_declares_jpeg:
  assumes "files w image_path = Data bs"
  shows "(\<forall>req \<in> set (built_requests (snd (analyze_image w image_path text_prompt api_key []))).
            request_image_urls req = [''data:image/jpeg;base64,'' @ b64encode bs]) \<and>
         (\<forall>sent \<in> set (sent_requests (snd (analyze_image w image_path text_prompt api_key []))).
            request_image_urls (snd sent) = [''data:image/jpeg;base64,'' @ b64encode bs]) \<and>
         (client_init w api_key = None \<longrightarrow>
            built_requests (snd (analyze_image w image_path text_prompt api_key []))
              = [build_request text_prompt (b64encode bs)])"
  using sent_requests_data[OF assms, of text_prompt api_key]
  by (auto simp: built_requests_data[OF assms] request_image_urls_build)

theorem image_url_declares_jpeg_witness:
  "files (scenario_world [''17'']) ''grid.png'' = Data png_signature \<and>
   client_init (scenario_world [''17'']) (PyStr ''valid-key'') = None \<and>
   map request_image_urls (built_requests (snd (analyze_image (scenario_world [''17'']) ''grid.png''
     ''Identify section 1-40 containing the search bar'' (PyStr ''valid-key'') [])))
     = [ [''data:image/jpeg;base64,iVBORw0KGgo=''] ]"
  using image_url_declares_jpeg [of "scenario_world [''17'']" "''grid.png''" png_signature
      "''Identify section 1-40 containing the search bar''" "PyStr ''valid-key''"]
  by (simp add: scenario_simps built_requests_data request_image_urls_build
      b64encode_png_signature)

text \<open>
  C5. When nothing outside the script binds \<^verbatim>\<open>OPENAI_API_KEY\<close>, evaluating the module
  raises \<open>NameError\<close> for that name at the \<^verbatim>\<open>def\<close> statement, where the default value
  is evaluated. The trace is unchanged: no file has been opened, no request built or sent,
  nothing printed.
\<close>

theorem module_raises_name_error:
  assumes "env ''OPENAI_API_KEY'' = None"
  shows "run_module w env tr = (Inl (NameError ''OPENAI_API_KEY''), tr)"
  using assms by (simp add: run_module_outcome)

theorem module_raises_name_error_witness:
  "standard_env ''OPENAI_API_KEY'' = None \<and>
   run_module (scenario_world [''17'']) standard_env []
     = (Inl (NameError ''OPENAI_API_KEY''), [])"
  using module_raises_name_error [of standard_env "scenario_world [''17'']" "[]"]
    standard_env_no_key
  by simp

text \<open>
  C6 (as amended). In a run of the script the endpoint method is called at most once, and at
  most three outbound requests are made: the transmission of that call and the two further
  transmissions the client makes of a request that keeps failing transiently.
\<close>

theorem module_request_count:
  "length (built_requests (snd (run_module w env []))) \<le> 1 \<and>
   length (sent_requests (snd (run_module w env []))) \<le> 3"
proof (cases "env ''OPENAI_API_KEY''")
  case None
  then show ?thesis by (simp add: run_module_outcome)
next
  case (Some a)
  with requests_bounded [of w "''claude-2-result-2.png''" "quadrant_input ''submit text button''" a]
  show ?thesis by (simp add: run_module_outcome)
qed

theorem module_request_count_witness:
  "length (built_requests (snd (run_module (scenario_world [''17'']) injected_env []))) = 1 \<and>
   length (sent_requests (snd (run_module (scenario_world [''17'']) injected_env []))) = 1"
  using module_request_count [of "scenario_world [''17'']" injected_env]
  by (simp add: run_module_outcome injected_env_key analyze_image_outcome scenario_simps
      max_retries_Suc trace_simps)

text \<open>
  Neither "exactly one request per program run" nor "at most one" holds: a run in a fresh
  interpreter stops at the \<^verbatim>\<open>def\<close> statement, with the image in place, and makes no
  request; a run whose credential is throttled by the service makes three.
\<close>

theorem module_request_count_counterexample:
  "readable (files (scenario_world [''17'']) ''claude-2-result-2.png'') \<and>
   length (sent_requests (snd (run_module (scenario_world [''17'']) standard_env []))) = 0 \<and>
   throttled_env ''OPENAI_API_KEY'' = Some (PyStr ''throttled-key'') \<and>
   length (sent_requests (snd (run_module (scenario_world [''17'']) throttled_env []))) = 3"
  by (simp add: run_module_outcome standard_env_no_key throttled_env_key analyze_image_outcome
      scenario_simps max_retries_Suc trace_simps)




text \<open>
  C8. The file handle lives inside the encoding step: on every path through
  \<^verbatim>\<open>analyze_image\<close>, whether it succeeds or fails, the handle that was opened is closed
  again, it is read only while open, and it is closed before the request is built and sent.
\<close>

theorem file_handle_scoped:
  "handles_scoped [] (snd (analyze_image w p t k []))"
  by (cases "files w p"; cases "client_init w k")
     (simp_all add: analyze_image_outcome handles_scoped_replicate
        handles_scoped_replicate_only split: sum.splits prod.splits option.splits)

theorem file_handle_scoped_witness:
  "handles_scoped [] (snd (analyze_image (scenario_world [''17'']) ''grid.png'' ''where?''
     (PyStr ''valid-key'') [])) \<and>
   snd (analyze_image (scenario_world [''17'']) ''broken.png'' ''where?'' (PyStr ''valid-key'') [])
     = [FileOpened ''broken.png'', FileClosed ''broken.png''] \<and>
   handles_scoped [] (snd (analyze_image (scenario_world [''17'']) ''broken.png'' ''where?''
     (PyStr ''valid-key'') []))"
  using file_handle_scoped [of "scenario_world [''17'']" "''grid.png''" "''where?''" "PyStr ''valid-key''"]
    file_handle_scoped [of "scenario_world [''17'']" "''broken.png''" "''where?''" "PyStr ''valid-key''"]
  by (simp add: analyze_image_outcome scenario_simps)

text \<open>
  C9 (as amended). When the constructor accepts the credential, the file is readable and the
  service rejects the credential with an \<open>AuthenticationError\<close>, that error is the result of
  \<^verbatim>\<open>analyze_image\<close>. By then the file has been opened, read and closed and the request
  has been built and sent, in this order; exactly one request went out and nothing is
  printed.
\<close>

theorem invalid_credential_fails_after_request:
  assumes "client_init w k = None"
    and "files w p = Data bs"
    and "remote w k (build_request t (b64encode bs)) 0 = Inl AuthenticationError"
  shows "analyze_image w p t k [] =
           (Inl AuthenticationError,
            [FileOpened p, FileRead p, FileClosed p,
             RequestBuilt (build_request t (b64encode bs)),
             RequestSent k (build_request t (b64encode bs))]) \<and>
         sent_requests (snd (analyze_image w p t k [])) = [(k, build_request t (b64encode bs))] \<and>
         stdout_writes (snd (analyze_image w p t k [])) = []"
  using assms by (simp add: analyze_image_outcome transmit_outcome_final)

theorem invalid_credential_fails_after_request_witness:
  "client_init (scenario_world [''17'']) (PyStr ''expired-key'') = None \<and>
   files (scenario_world [''17'']) ''grid.png'' = Data png_signature \<and>
   remote (scenario_world [''17'']) (PyStr ''expired-key'')
     (build_request ''where?'' (b64encode png_signature)) 0 = Inl AuthenticationError \<and>
   fst (analyze_image (scenario_world [''17'']) ''grid.png'' ''where?'' (PyStr ''expired-key'') [])
     = Inl AuthenticationError \<and>
   length (sent_requests (snd (analyze_image (scenario_world [''17'']) ''grid.png'' ''where?''
     (PyStr ''expired-key'') []))) = 1 \<and>
   stdout_of (snd (analyze_image (scenario_world [''17'']) ''grid.png'' ''where?''
     (PyStr ''expired-key'') [])) = []"
  using invalid_credential_fails_after_request [of "scenario_world [''17'']"
      "PyStr ''expired-key''" "''grid.png''" png_signature "''where?''"]
  by (simp add: scenario_simps stdout_of_def)

text \<open>
  A credential can be invalid without the service ever seeing it: given no credential at
  all, the constructor raises on line 6. The file is not read, no request is sent, and the
  error is not an \<open>AuthenticationError\<close>.
\<close>

theorem invalid_credential_constructor_counterexample:
  "files (scenario_world [''17'']) ''grid.png'' = Data png_signature \<and>
   analyze_image (scenario_world [''17'']) ''grid.png'' ''where?'' PyNone []
     = (Inl OpenAIError, []) \<and>
   fst (analyze_image (scenario_world [''17'']) ''grid.png'' ''where?'' PyNone [])
     \<noteq> Inl AuthenticationError \<and>
   sent_requests (snd (analyze_image (scenario_world [''17'']) ''grid.png'' ''where?'' PyNone []))
     = []"
  by (simp add: analyze_image_outcome scenario_simps)

text \<open>
  C10. For every world, image path, prompt and credential, each request that
  \<^verbatim>\<open>analyze_image\<close> submits goes out under the given credential, names the model
  \<^verbatim>\<open>gpt-4.1-mini-2025-04-14\<close>, and holds exactly one message, of role \<^verbatim>\<open>user\<close>,
  whose content is the text part with the prompt as given, followed by one image part.
  Such a request is submitted whenever the constructor accepts the credential and the image
  is readable.
\<close>

theorem submitted_request_shape:
  "(\<forall>sent \<in> set (sent_requests (snd (analyze_image w p t k []))).
      fst sent = k \<and>
      req_model (snd sent) = ''gpt-4.1-mini-2025-04-14'' \<and>
      (\<exists>url. req_messages (snd sent) =
         [\<lparr>req_role = ''user'', req_content = [TextPart t, ImageUrlPart url]\<rparr>])) \<and>
   (client_init w k = None \<and> readable (files w p) \<longrightarrow>
      sent_requests (snd (analyze_image w p t k [])) \<noteq> [])"
proof (cases "files w p")
  case (Data bs)
  have shape: "req_model (build_request t (b64encode bs)) = ''gpt-4.1-mini-2025-04-14'' \<and>
      (\<exists>url. req_messages (build_request t (b64encode bs)) =
         [\<lparr>req_role = ''user'', req_content = [TextPart t, ImageUrlPart url]\<rparr>])"
    by (simp add: build_request_def)
  have sent: "1 \<le> snd (transmit_outcome w k (build_request t (b64encode bs)) 0 max_retries)"
    using transmit_outcome_bounds by blast
  from sent_requests_data[OF Data, of t k] shape
  have "\<forall>sent \<in> set (sent_requests (snd (analyze_image w p t k []))).
      fst sent = k \<and>
      req_model (snd sent) = ''gpt-4.1-mini-2025-04-14'' \<and>
      (\<exists>url. req_messages (snd sent) =
         [\<lparr>req_role = ''user'', req_content = [TextPart t, ImageUrlPart url]\<rparr>])"
    by fastforce
  moreover have "client_init w k = None \<longrightarrow> sent_requests (snd (analyze_image w p t k [])) \<noteq> []"
    using sent Data
    by (auto simp: analyze_image_outcome trace_simps split: sum.splits prod.splits option.splits)
  ultimately show ?thesis by blast
qed (simp_all add: analyze_image_outcome split: option.splits)

theorem submitted_request_shape_witness:
  "client_init (scenario_world [''17'']) (PyStr ''valid-key'') = None \<and>
   readable (files (scenario_world [''17'']) ''grid.png'') \<and>
   sent_requests (snd (analyze_image (scenario_world [''17'']) ''grid.png'' ''where?''
     (PyStr ''valid-key'') []))
   = [(PyStr ''valid-key'',
       \<lparr>req_model = ''gpt-4.1-mini-2025-04-14'',
        req_messages =
          [\<lparr>req_role = ''user'',
            req_content =
              [TextPart ''where?'', ImageUrlPart ''data:image/jpeg;base64,iVBORw0KGgo='']\<rparr>]\<rparr>)]"
  using submitted_request_shape [of "scenario_world [''17'']" "''grid.png''" "''where?''" "PyStr ''valid-key''"]
  by (simp add: analyze_image_outcome scenario_simps max_retries_Suc trace_simps
      build_request_def b64encode_png_signature)

end
